theory Spec2Isabelle
  imports Complex_Main
begin

section \<open>Python values, exceptions and the collaborators outside the program\<close>

text \<open>
  The program is one Python 2 module, \<^verbatim>\<open>main.py\<close>, written against Kivy, geopy and
  landez. Every method modelled here takes the state it reads and returns the state it
  leaves; a raised exception is a value. Floats are only stored and passed on by the
  methods modelled (no float arithmetic is performed), so they are reals here. The
  conversions \<^verbatim>\<open>float(x)\<close> and \<^verbatim>\<open>int(x)\<close> of the Python runtime, the geocoder
  and the package reader are arguments of the functions that call them: \<open>None\<close> is a
  string the conversion rejects (Python raises ValueError).
\<close>

type_synonym path = string

datatype exn =
    GeocoderServiceError string
  | OSError
  | ValueError
  | IndexError
  | UnboundLocalError
  | InvalidFormatFile

text \<open>A bounding box in the order the tile builder takes: (min_lon, min_lat, max_lon, max_lat).\<close>

type_synonym bbox = "real \<times> real \<times> real \<times> real"

text \<open>\<^verbatim>\<open>[float(x) for x in xs]\<close>: the first string that is not a number raises ValueError.\<close>

fun floats :: "(string \<Rightarrow> real option) \<Rightarrow> string list \<Rightarrow> exn + real list" where
  "floats pyfloat [] = Inr []"
| "floats pyfloat (x # xs) =
     (case pyfloat x of
        None \<Rightarrow> Inl ValueError
      | Some v \<Rightarrow> (case floats pyfloat xs of Inl e \<Rightarrow> Inl e | Inr vs \<Rightarrow> Inr (v # vs)))"

text \<open>
  \<^verbatim>\<open>Controller.geopy_bbox_to_bbox\<close>: the tuple assignment raises ValueError unless the
  list has exactly four elements.
\<close>

definition geopy_bbox_to_bbox :: "(string \<Rightarrow> real option) \<Rightarrow> string list \<Rightarrow> exn + bbox" where
  "geopy_bbox_to_bbox pyfloat geopy_bbox =
     (case floats pyfloat geopy_bbox of
        Inl e \<Rightarrow> Inl e
      | Inr [min_lat, max_lat, min_lon, max_lon] \<Rightarrow> Inr (min_lon, min_lat, max_lon, max_lat)
      | Inr _ \<Rightarrow> Inl ValueError)"


text \<open>
  \<^verbatim>\<open>s.split(sep)\<close> with a one-character separator: the fields between the
  separators, never an empty list.
\<close>

fun str_split :: "char \<Rightarrow> string \<Rightarrow> string list" where
  "str_split sep [] = [[]]"
| "str_split sep (c # cs) =
     (if c = sep then [] # str_split sep cs
      else (case str_split sep cs of
              [] \<Rightarrow> [[c]]
            | x # xs \<Rightarrow> (c # x) # xs))"

text \<open>\<^verbatim>\<open>"%s" % n\<close> for an integer: its decimal digits, with a sign when negative.\<close>

fun str_nat :: "nat \<Rightarrow> string" where
  "str_nat n =
     (if n < 10 then [char_of (48 + n)]
      else str_nat (n div 10) @ [char_of (48 + n mod 10)])"

definition str_int :: "int \<Rightarrow> string" where
  "str_int i = (if i < 0 then CHR ''-'' # str_nat (nat (- i)) else str_nat (nat i))"

section \<open>The file system\<close>

text \<open>
  The paths that exist, in the order the file system enumerates them, each a file or a
  directory; \<open>makedirs_ok\<close> says whether the process is able to create a directory.
\<close>

datatype node = File | Dir

record filesystem =
  entries :: "(path \<times> node) list"
  makedirs_ok :: bool

text \<open>\<^verbatim>\<open>os.path.join(a, b)\<close> of posixpath: an absolute \<open>b\<close> replaces \<open>a\<close>.\<close>

definition os_path_join :: "path \<Rightarrow> path \<Rightarrow> path" where
  "os_path_join a b =
     (if take 1 b = ''/'' then b
      else if a = [] \<or> drop (length a - 1) a = ''/'' then a @ b
      else a @ ''/'' @ b)"

definition os_path_exists :: "filesystem \<Rightarrow> path \<Rightarrow> bool" where
  "os_path_exists fsys p = (p \<in> set (map fst (entries fsys)))"

text \<open>\<^verbatim>\<open>os.makedirs(d)\<close>: raises OSError when \<open>d\<close> exists or cannot be created.\<close>

definition os_makedirs :: "filesystem \<Rightarrow> path \<Rightarrow> exn + filesystem" where
  "os_makedirs fsys d =
     (if makedirs_ok fsys \<and> \<not> os_path_exists fsys d
      then Inr (fsys\<lparr>entries := entries fsys @ [(d, Dir)]\<rparr>)
      else Inl OSError)"

text \<open>\<^verbatim>\<open>os.remove(p)\<close>: raises OSError unless \<open>p\<close> is an existing file.\<close>

definition os_remove :: "filesystem \<Rightarrow> path \<Rightarrow> exn + filesystem" where
  "os_remove fsys p =
     (if (p, File) \<in> set (entries fsys)
      then Inr (fsys\<lparr>entries := filter (\<lambda>e. fst e \<noteq> p) (entries fsys)\<rparr>)
      else Inl OSError)"

text \<open>
  \<^verbatim>\<open>os.listdir(d)\<close>: the names directly inside \<open>d\<close>, in enumeration order; \<open>None\<close>
  when \<open>d\<close> is not a directory.
\<close>

definition child_name :: "path \<Rightarrow> path \<Rightarrow> string list" where
  "child_name d p =
     (let pre = d @ ''/''; name = drop (length pre) p
      in if take (length pre) p = pre \<and> name \<noteq> [] \<and> CHR ''/'' \<notin> set name
         then [name] else [])"

definition os_listdir :: "filesystem \<Rightarrow> path \<Rightarrow> string list option" where
  "os_listdir fsys d =
     (if (d, Dir) \<in> set (entries fsys)
      then Some (concat (map (\<lambda>e. child_name d (fst e)) (entries fsys)))
      else None)"

text \<open>
  \<^verbatim>\<open>glob.glob(os.path.join(d, '*.mbtiles'))\<close> for a directory path \<open>d\<close> without
  pattern characters of its own: the names of \<open>d\<close> that end in \<^verbatim>\<open>.mbtiles\<close> and do
  not start with a dot, joined to \<open>d\<close>, in the order of the listing; nothing when \<open>d\<close>
  cannot be listed.
\<close>

definition fnmatch_mbtiles :: "string \<Rightarrow> bool" where
  "fnmatch_mbtiles name =
     (take 1 name \<noteq> ''.'' \<and> drop (length name - 8) name = ''.mbtiles'')"

definition glob_mbtiles :: "filesystem \<Rightarrow> path \<Rightarrow> path list" where
  "glob_mbtiles fsys d =
     (case os_listdir fsys d of
        None \<Rightarrow> []
      | Some names \<Rightarrow> map (os_path_join d) (filter fnmatch_mbtiles names))"

section \<open>The application state\<close>

text \<open>\<^verbatim>\<open>OFFLINE_MIN_ZOOM\<close>, \<^verbatim>\<open>OFFLINE_MAX_ZOOM\<close>.\<close>

definition OFFLINE_MIN_ZOOM :: int where
  "OFFLINE_MIN_ZOOM = 12"

definition OFFLINE_MAX_ZOOM :: int where
  "OFFLINE_MAX_ZOOM = 15"

text \<open>
  A Kivy animation: one property driven to a target value over a duration, two
  animations run together (\<^verbatim>\<open>&\<close>), or one after the other (\<^verbatim>\<open>+\<close>).
\<close>

datatype anim_property =
    animated_zoom_property int
  | animated_latlon_property real real

datatype animation =
    Animation anim_property real
  | Parallel animation animation
  | Sequence animation animation

text \<open>The tile sources of the map view; \<^verbatim>\<open>mbtcsource.MBTilesCompositeMapSource\<close> is
  built from a list of package paths.\<close>

datatype map_source =
    MapSource
  | MBTilesCompositeMapSource "path list"

text \<open>\<^verbatim>\<open>landez.MBTilesBuilder(filepath=..., cache=...)\<close> with its added coverages.\<close>

record mbtiles_builder =
  mb_filepath :: path
  mb_cache :: bool
  mb_coverage :: "(bbox \<times> int list) list"

text \<open>The handler bound to a confirmation popup's \<^verbatim>\<open>on_yes\<close>.\<close>

datatype callback =
    download_for_offline_cb path bbox "int list" bool

datatype popup =
    PopupMessage string string
  | ConfirmPopup string string callback

text \<open>What the program asks of its collaborators, in the order it asks.\<close>

datatype effect =
    Geocode string
  | PopupOpen popup
  | AnimationStart animation
  | StatusBarShow
  | Makedirs path
  | Remove path
  | ThreadStart mbtiles_builder bool

text \<open>
  \<open>clock\<close> holds the callbacks scheduled with \<^verbatim>\<open>Clock.schedule_interval\<close>: the
  interval and the builder the probe was created for. \<open>status_lifetime\<close> is the pending
  \<^verbatim>\<open>Clock.schedule_once(self._clean_status_message, lifetime)\<close>.
\<close>

record world =
  user_data_dir :: path
  fs :: filesystem
  lat :: real
  lon :: real
  zoom :: int
  map_source :: map_source
  status_message :: string
  status_lifetime :: "real option"
  clock :: "(real \<times> mbtiles_builder) list"
  effects :: "effect list"

text \<open>The place the geocoder returns: \<^verbatim>\<open>location.raw['type']\<close> and
  \<^verbatim>\<open>location.raw['boundingbox']\<close> are the two raw fields read.\<close>

record location =
  latitude :: real
  longitude :: real
  address :: string
  raw_type :: string
  raw_boundingbox :: "string list"

text \<open>What a poll reads of a builder and its thread.\<close>

record job_status =
  rendered :: int
  nbtiles :: int
  is_alive :: bool

definition emit :: "world \<Rightarrow> effect \<Rightarrow> world" where
  "emit w e = w\<lparr>effects := effects w @ [e]\<rparr>"

text \<open>\<^verbatim>\<open>MapViewApp.mbtiles_directory\<close> and \<^verbatim>\<open>MapViewApp.mbtiles_paths\<close>.\<close>

definition mbtiles_directory :: "world \<Rightarrow> path" where
  "mbtiles_directory w = os_path_join (user_data_dir w) ''mbtiles''"

definition mbtiles_paths :: "world \<Rightarrow> path list" where
  "mbtiles_paths w = glob_mbtiles (fs w) (mbtiles_directory w)"

section \<open>The map view\<close>

text \<open>\<^verbatim>\<open>CustomMapView.animated_center_on\<close>.\<close>

definition animated_center_on :: "world \<Rightarrow> real \<Rightarrow> real \<Rightarrow> world" where
  "animated_center_on w la lo =
     (let initial_zoom = zoom w;
          anim = Animation (animated_zoom_property 5) 1;
          anim = Parallel anim (Animation (animated_latlon_property la lo) 1);
          anim = Sequence anim (Animation (animated_zoom_property initial_zoom) 1)
      in emit w (AnimationStart anim))"

text \<open>
  What Kivy does with a started animation: its length, and the values its properties
  hold when it has run to its end (\<^verbatim>\<open>on_animated_latlon_property\<close> centers the view,
  \<^verbatim>\<open>on_animated_zoom_property\<close> stores the zoom).
\<close>

fun anim_duration :: "animation \<Rightarrow> real" where
  "anim_duration (Animation p d) = d"
| "anim_duration (Parallel a b) = max (anim_duration a) (anim_duration b)"
| "anim_duration (Sequence a b) = anim_duration a + anim_duration b"

fun anim_run :: "animation \<Rightarrow> world \<Rightarrow> world" where
  "anim_run (Animation (animated_zoom_property z) d) w = w\<lparr>zoom := z\<rparr>"
| "anim_run (Animation (animated_latlon_property la lo) d) w = w\<lparr>lat := la, lon := lo\<rparr>"
| "anim_run (Parallel a b) w = anim_run b (anim_run a w)"
| "anim_run (Sequence a b) w = anim_run b (anim_run a w)"

text \<open>\<^verbatim>\<open>PopupMessage(...).open()\<close>, \<^verbatim>\<open>ConfirmPopup(...).open()\<close>.\<close>

definition popup_open :: "world \<Rightarrow> popup \<Rightarrow> world" where
  "popup_open w p = emit w (PopupOpen p)"

text \<open>\<^verbatim>\<open>CustomMapView.search\<close>: the geocoder answers \<open>Inl msg\<close> when it raises
  GeocoderServiceError with that message.\<close>

definition search :: "(string \<Rightarrow> string + location option) \<Rightarrow> world \<Rightarrow> string \<Rightarrow> exn option \<times> world" where
  "search geocode w txt =
     (let w1 = emit w (Geocode txt)
      in case geocode txt of
           Inl msg \<Rightarrow> (None, popup_open w1 (PopupMessage ''Error'' msg))
         | Inr None \<Rightarrow> (None, popup_open w1 (PopupMessage ''Error'' ''Can't find location.''))
         | Inr (Some loc) \<Rightarrow>
             (None, animated_center_on w1 (latitude loc) (longitude loc)))"

text \<open>
  \<^verbatim>\<open>CustomMapView.load_mbtiles\<close>. \<open>latitude\<close> and \<open>longitude\<close> are assigned only
  under \<^verbatim>\<open>if "center" in metadata\<close> (here \<open>la\<close>, \<open>lo\<close>); read unassigned, they
  raise UnboundLocalError.
  \<open>read_metadata\<close> is \<^verbatim>\<open>MBTilesReader(path).metadata()\<close>, \<open>None\<close> when the file
  is not a package.
\<close>

definition parse_center :: "(string \<Rightarrow> real option) \<Rightarrow> string \<Rightarrow> exn + real \<times> real \<times> real" where
  "parse_center pyfloat c =
     (case floats pyfloat (str_split CHR '','' c) of
        Inl e \<Rightarrow> Inl e
      | Inr [lo, la, z] \<Rightarrow> Inr (lo, la, z)
      | Inr _ \<Rightarrow> Inl ValueError)"

definition load_mbtiles ::
  "(path \<Rightarrow> (string \<rightharpoonup> string) option) \<Rightarrow> (string \<Rightarrow> real option) \<Rightarrow> (string \<Rightarrow> int option) \<Rightarrow>
     world \<Rightarrow> string \<Rightarrow> exn option \<times> world" where
  "load_mbtiles read_metadata pyfloat pyint w mbtiles =
     (let paths = mbtiles_paths w;
          mbtiles_path = os_path_join (mbtiles_directory w) mbtiles;
          w1 = w\<lparr>map_source := MBTilesCompositeMapSource paths\<rparr>
      in case read_metadata mbtiles_path of
           None \<Rightarrow> (Some InvalidFormatFile, w1)
         | Some metadata \<Rightarrow>
             (case (case metadata ''center'' of
                      None \<Rightarrow> Inr None
                    | Some c \<Rightarrow>
                        (case parse_center pyfloat c of
                           Inl e \<Rightarrow> Inl e
                         | Inr (lo, la, z) \<Rightarrow> Inr (Some (la, lo)))) of
                Inl e \<Rightarrow> (Some e, w1)
              | Inr None \<Rightarrow> (Some UnboundLocalError, w1)
              | Inr (Some (la, lo)) \<Rightarrow>
                  (let w2 = animated_center_on w1 la lo
                   in case (case metadata ''minzoom'' of
                              None \<Rightarrow> Some OFFLINE_MIN_ZOOM
                            | Some s \<Rightarrow> pyint s) of
                        None \<Rightarrow> (Some ValueError, w2)
                      | Some min_zoom \<Rightarrow> (None, w2\<lparr>zoom := min_zoom\<rparr>))))"

section \<open>The controller\<close>

text \<open>\<^verbatim>\<open>MapViewScreen.update_status_message\<close>.\<close>

definition update_status_message :: "world \<Rightarrow> string \<Rightarrow> real \<Rightarrow> world" where
  "update_status_message w txt lifetime =
     (emit w StatusBarShow)\<lparr>status_message := txt, status_lifetime := Some lifetime\<rparr>"

text \<open>\<^verbatim>\<open>Controller.download_for_offline\<close>.\<close>

definition download_for_offline :: "world \<Rightarrow> path \<Rightarrow> bbox \<Rightarrow> int list \<Rightarrow> bool \<Rightarrow> exn option \<times> world" where
  "download_for_offline w filepath bbox zoomlevels delete =
     (case (if delete
            then (case os_remove (fs w) filepath of
                    Inl e \<Rightarrow> Inl e
                  | Inr fs' \<Rightarrow> Inr (emit (w\<lparr>fs := fs'\<rparr>) (Remove filepath)))
            else Inr w) of
        Inl e \<Rightarrow> (Some e, w)
      | Inr w1 \<Rightarrow>
          (let mb = \<lparr>mb_filepath = filepath, mb_cache = True, mb_coverage = []\<rparr>;
               mb = mb\<lparr>mb_coverage := mb_coverage mb @ [(bbox, zoomlevels)]\<rparr>;
               w2 = emit w1 (ThreadStart mb False)
           in (None, w2\<lparr>clock := clock w2 @ [(0.5, mb)]\<rparr>)))"

text \<open>\<^verbatim>\<open>Controller.prepare_download_for_offline2\<close>.\<close>

definition prepare_download_for_offline2 :: "world \<Rightarrow> string \<Rightarrow> bbox \<Rightarrow> int list \<Rightarrow> exn option \<times> world" where
  "prepare_download_for_offline2 w filename bbox zoomlevels =
     (case (if \<not> os_path_exists (fs w) (mbtiles_directory w)
            then (case os_makedirs (fs w) (mbtiles_directory w) of
                    Inl e \<Rightarrow> Inl e
                  | Inr fs' \<Rightarrow> Inr (emit (w\<lparr>fs := fs'\<rparr>) (Makedirs (mbtiles_directory w))))
            else Inr w) of
        Inl e \<Rightarrow> (Some e, w)
      | Inr w1 \<Rightarrow>
          (let filepath = os_path_join (mbtiles_directory w1) filename
           in if os_path_exists (fs w1) filepath
              then (let popup = ConfirmPopup ''File already exists''
                                  (''File already exists.'' @ [CHR 0x0A] @ ''Do you want to override?'')
                                  (download_for_offline_cb filepath bbox zoomlevels True);
                        w2 = popup_open w1 popup
                    in (None, update_status_message w2 (''File already exists: '' @ filename) 10))
              else download_for_offline w1 filepath bbox zoomlevels False))"

text \<open>The user's answer "yes" to a confirmation popup runs the handler bound to it.\<close>

fun on_yes :: "world \<Rightarrow> callback \<Rightarrow> exn option \<times> world" where
  "on_yes w (download_for_offline_cb filepath bbox zoomlevels delete) =
     download_for_offline w filepath bbox zoomlevels delete"

text \<open>\<^verbatim>\<open>Controller.prepare_download_for_offline1\<close>; \<^verbatim>\<open>range(12, 15+1)\<close> is the
  list of the zoom levels 12 to 15.\<close>

definition prepare_download_for_offline1 ::
  "(string \<Rightarrow> string + location option) \<Rightarrow> (string \<Rightarrow> real option) \<Rightarrow> world \<Rightarrow> string \<Rightarrow> exn option \<times> world" where
  "prepare_download_for_offline1 geocode pyfloat w txt =
     (let w1 = emit w (Geocode txt)
      in case geocode txt of
           Inl msg \<Rightarrow> (Some (GeocoderServiceError msg), w1)
         | Inr None \<Rightarrow> (None, popup_open w1 (PopupMessage ''Error'' ''Can't find location.''))
         | Inr (Some loc) \<Rightarrow>
             if raw_type loc \<noteq> ''city''
             then (None, popup_open w1 (PopupMessage ''Error'' ''Only cities are allowed.''))
             else (let w2 = animated_center_on w1 (latitude loc) (longitude loc)
                   in case str_split CHR '','' (address loc) of
                        [] \<Rightarrow> (Some IndexError, w2)
                      | city # _ \<Rightarrow>
                          (let filename = city @ ''.mbtiles''
                           in case geopy_bbox_to_bbox pyfloat (raw_boundingbox loc) of
                                Inl e \<Rightarrow> (Some e, w2)
                              | Inr bbox \<Rightarrow>
                                  prepare_download_for_offline2 w2 filename bbox
                                    [OFFLINE_MIN_ZOOM .. OFFLINE_MAX_ZOOM])))"

text \<open>\<^verbatim>\<open>Controller.download_world_map\<close>.\<close>

definition download_world_map :: "world \<Rightarrow> exn option \<times> world" where
  "download_world_map w =
     prepare_download_for_offline2 w ''World.mbtiles'' (- 179, - 89, 179, 89) [0 .. 5]"

text \<open>
  \<^verbatim>\<open>Controller.probe_mb_tiles_builder_thread\<close>: the value returned is \<open>Some False\<close>
  for \<^verbatim>\<open>return False\<close> and \<open>None\<close> when the method falls off its end.
\<close>

definition probe_mb_tiles_builder_thread :: "world \<Rightarrow> job_status \<Rightarrow> bool option \<times> world" where
  "probe_mb_tiles_builder_thread w job =
     (let w1 = update_status_message w
                 (''Downloading tiles '' @ str_int (rendered job) @ ''/'' @ str_int (nbtiles job)) 10
      in if \<not> is_alive job
         then (Some False,
               update_status_message w1
                 (''Downloading tiles '' @ str_int (nbtiles job) @ ''/'' @ str_int (nbtiles job)) 10)
         else (None, w1))"

text \<open>
  One firing of the \<open>k\<close>-th interval callback by Kivy's clock, with what the poll reads
  of the job at that moment: a callback that returns False is unscheduled.
\<close>

definition clock_tick :: "world \<Rightarrow> nat \<Rightarrow> job_status \<Rightarrow> world" where
  "clock_tick w k job =
     (if k < length (clock w)
      then (case probe_mb_tiles_builder_thread w job of
              (ret, w1) \<Rightarrow>
                if ret = Some False
                then w1\<lparr>clock := take k (clock w1) @ drop (Suc k) (clock w1)\<rparr>
                else w1)
      else w)"

text \<open>\<^verbatim>\<open>Controller.load_mbtiles\<close> hands the name to the map view.\<close>

definition controller_load_mbtiles ::
  "(path \<Rightarrow> (string \<rightharpoonup> string) option) \<Rightarrow> (string \<Rightarrow> real option) \<Rightarrow> (string \<Rightarrow> int option) \<Rightarrow>
     world \<Rightarrow> string \<Rightarrow> exn option \<times> world" where
  "controller_load_mbtiles read_metadata pyfloat pyint w mbtiles =
     load_mbtiles read_metadata pyfloat pyint w mbtiles"

section \<open>Example states\<close>

text \<open>
  A device with two packages and a stray file in the package directory; the same device
  with no package directory and no right to create it; and the first one while a
  download of Lyon is being polled.
\<close>

definition home_world :: world where
  "home_world =
     \<lparr>user_data_dir = ''/data'',
      fs = \<lparr>entries = [(''/data'', Dir), (''/data/mbtiles'', Dir),
                       (''/data/mbtiles/Paris.mbtiles'', File),
                       (''/data/mbtiles/notes.txt'', File),
                       (''/data/mbtiles/World.mbtiles'', File)],
             makedirs_ok = True\<rparr>,
      lat = 43.61, lon = 3.88, zoom = 8,
      map_source = MapSource,
      status_message = [], status_lifetime = None,
      clock = [], effects = []\<rparr>"

definition locked_world :: world where
  "locked_world = home_world\<lparr>fs := \<lparr>entries = [(''/data'', Dir)], makedirs_ok = False\<rparr>\<rparr>"

definition polling_world :: world where
  "polling_world =
     home_world\<lparr>clock := [(0.5, \<lparr>mb_filepath = ''/data/mbtiles/Lyon.mbtiles'', mb_cache = True,
                                   mb_coverage = [((4.7, 45.7, 4.9, 45.8), [12, 13, 14, 15])]\<rparr>)]\<rparr>"

definition lyon :: location where
  "lyon = \<lparr>latitude = 45.76, longitude = 4.84, address = ''Lyon, Rhone, France'',
            raw_type = ''city'', raw_boundingbox = [''45.7'', ''45.8'', ''4.7'', ''4.9'']\<rparr>"

text \<open>A number conversion that knows the decimals used in the examples.\<close>

definition example_float :: "string \<Rightarrow> real option" where
  "example_float =
     map_of [(''45.7'', 45.7), (''45.8'', 45.8), (''4.7'', 4.7), (''4.9'', 4.9),
             (''48.8'', 48.8), (''48.9'', 48.9), (''2.2'', 2.2), (''2.4'', 2.4)]"

declare str_nat.simps [simp del]

section \<open>Bounding-box conversion\<close>

lemma floats_all_numeric:
  "map pyfloat xs = map Some vs \<Longrightarrow> floats pyfloat xs = Inr vs"
proof (induction xs arbitrary: vs)
  case Nil
  then show ?case by simp
next
  case (Cons x xs)
  then obtain v vs' where vs: "vs = v # vs'" by (cases vs) auto
  with Cons.prems have "pyfloat x = Some v" and "map pyfloat xs = map Some vs'" by auto
  with Cons.IH vs show ?case by simp
qed

lemma geopy_bbox_to_bbox_not_numeric:
  "pyfloat a = None \<Longrightarrow> geopy_bbox_to_bbox pyfloat (a # rest) = Inl ValueError"
  by (simp add: geopy_bbox_to_bbox_def)

text \<open>
  C8. On four numeric strings in the geocoder's order (min_lat, max_lat, min_lon, max_lon)
  the conversion raises nothing and returns exactly (min_lon, min_lat, max_lon, max_lat).
  It reads and writes no state: it is a function of the four strings alone.
\<close>

theorem geopy_bbox_to_bbox_reorders:
  assumes "pyfloat a = Some min_lat" and "pyfloat b = Some max_lat"
    and "pyfloat c = Some min_lon" and "pyfloat d = Some max_lon"
  shows "geopy_bbox_to_bbox pyfloat [a, b, c, d] = Inr (min_lon, min_lat, max_lon, max_lat)"
proof -
  have "map pyfloat [a, b, c, d] = map Some [min_lat, max_lat, min_lon, max_lon]"
    using assms by simp
  then have "floats pyfloat [a, b, c, d] = Inr [min_lat, max_lat, min_lon, max_lon]"
    by (rule floats_all_numeric)
  then show ?thesis by (simp add: geopy_bbox_to_bbox_def)
qed

theorem geopy_bbox_to_bbox_reorders_witness:
  "geopy_bbox_to_bbox example_float [''48.8'', ''48.9'', ''2.2'', ''2.4''] = Inr (2.2, 48.8, 2.4, 48.9)"
  by (rule geopy_bbox_to_bbox_reorders) (simp_all add: example_float_def)

section \<open>Shared facts\<close>

lemma str_int_10: "str_int 10 = ''10''"
  by code_simp

lemma zoomlevels_12_15: "[OFFLINE_MIN_ZOOM .. OFFLINE_MAX_ZOOM] = [12, 13, 14, 15]"
  unfolding OFFLINE_MIN_ZOOM_def OFFLINE_MAX_ZOOM_def by code_simp

lemma update_status_message_simps:
  "status_message (update_status_message w t l) = t"
  "status_lifetime (update_status_message w t l) = Some l"
  "clock (update_status_message w t l) = clock w"
  "fs (update_status_message w t l) = fs w"
  "effects (update_status_message w t l) = effects w @ [StatusBarShow]"
  by (simp_all add: update_status_message_def emit_def)

lemma home_world_packages:
  "mbtiles_paths home_world = [''/data/mbtiles/Paris.mbtiles'', ''/data/mbtiles/World.mbtiles'']"
  by (simp add: mbtiles_paths_def home_world_def glob_mbtiles_def os_listdir_def child_name_def
      mbtiles_directory_def os_path_join_def fnmatch_mbtiles_def)

section \<open>The viewport transition\<close>

text \<open>
  C7. From any viewport, \<open>animated_center_on\<close> starts one animation and changes nothing
  else: a zoom to level 5 together with a pan to the requested point, each of duration 1,
  followed by a zoom of duration 1 to the zoom the view had when the call was made. The
  whole lasts 2, and run to its end it leaves the view at the requested point with its
  former zoom.
\<close>

theorem animated_center_on_stages:
  "(let anim = Sequence
                 (Parallel (Animation (animated_zoom_property 5) 1)
                           (Animation (animated_latlon_property la lo) 1))
                 (Animation (animated_zoom_property (zoom w)) 1)
    in animated_center_on w la lo = w\<lparr>effects := effects w @ [AnimationStart anim]\<rparr>
       \<and> anim_duration anim = 2
       \<and> zoom (anim_run anim w) = zoom w
       \<and> lat (anim_run anim w) = la \<and> lon (anim_run anim w) = lo)"
  by (simp add: Let_def animated_center_on_def emit_def)

section \<open>Polling a download\<close>

text \<open>
  C9. When the poll finds the thread dead, the probe returns False and the status message
  it leaves is "Downloading tiles total/total", whatever the rendered count is; the clock
  then drops that callback, so the schedule is the former one without it.
\<close>

theorem probe_dead_thread_final:
  assumes "\<not> is_alive job" and "k < length (clock w)"
  shows "fst (probe_mb_tiles_builder_thread w job) = Some False
    \<and> status_message (snd (probe_mb_tiles_builder_thread w job)) =
        ''Downloading tiles '' @ str_int (nbtiles job) @ ''/'' @ str_int (nbtiles job)
    \<and> status_message (clock_tick w k job) =
        ''Downloading tiles '' @ str_int (nbtiles job) @ ''/'' @ str_int (nbtiles job)
    \<and> clock (clock_tick w k job) = take k (clock w) @ drop (Suc k) (clock w)
    \<and> length (clock (clock_tick w k job)) = length (clock w) - 1"
  using assms
  by (simp add: probe_mb_tiles_builder_thread_def clock_tick_def Let_def update_status_message_simps)

theorem probe_dead_thread_final_witness:
  "fst (probe_mb_tiles_builder_thread polling_world \<lparr>rendered = 3, nbtiles = 10, is_alive = False\<rparr>) = Some False
    \<and> status_message (clock_tick polling_world 0 \<lparr>rendered = 3, nbtiles = 10, is_alive = False\<rparr>) =
        ''Downloading tiles 10/10''
    \<and> clock (clock_tick polling_world 0 \<lparr>rendered = 3, nbtiles = 10, is_alive = False\<rparr>) = []"
proof -
  have a: "\<not> is_alive \<lparr>rendered = 3, nbtiles = 10, is_alive = False\<rparr>" by simp
  have b: "0 < length (clock polling_world)" by (simp add: polling_world_def)
  have c: "drop (Suc 0) (clock polling_world) = []"
    by (simp add: polling_world_def)
  from probe_dead_thread_final [OF a b] show ?thesis by (simp add: str_int_10 c)
qed

text \<open>While the thread lives the probe returns nothing and stays scheduled; with nothing
  scheduled the clock fires nothing.\<close>

lemma probe_live_thread:
  "is_alive job \<Longrightarrow> fst (probe_mb_tiles_builder_thread w job) = None
     \<and> clock (clock_tick w k job) = clock w"
  by (simp add: probe_mb_tiles_builder_thread_def clock_tick_def Let_def update_status_message_simps)

lemma clock_tick_unscheduled: "clock w = [] \<Longrightarrow> clock_tick w k job = w"
  by (simp add: clock_tick_def)

section \<open>Starting a download\<close>

text \<open>
  C5. Called with \<open>delete\<close> set on a path that is an existing file,
  \<open>download_for_offline\<close> raises nothing: it removes the file, then starts a thread
  running the builder for that path and coverage (so the removal precedes the thread in
  the order of effects, and the path no longer exists when the builder is made), and
  schedules the probe of that builder every 0.5.
\<close>

theorem download_for_offline_delete:
  assumes "(filepath, File) \<in> set (entries (fs w))"
  shows "download_for_offline w filepath bbox zoomlevels True =
      (None, w\<lparr>fs := (fs w)\<lparr>entries := filter (\<lambda>e. fst e \<noteq> filepath) (entries (fs w))\<rparr>,
               effects := effects w @
                 [Remove filepath,
                  ThreadStart \<lparr>mb_filepath = filepath, mb_cache = True,
                               mb_coverage = [(bbox, zoomlevels)]\<rparr> False],
               clock := clock w @
                 [(0.5, \<lparr>mb_filepath = filepath, mb_cache = True,
                         mb_coverage = [(bbox, zoomlevels)]\<rparr>)]\<rparr>)
    \<and> \<not> os_path_exists (fs (snd (download_for_offline w filepath bbox zoomlevels True))) filepath"
  using assms
  by (auto simp add: download_for_offline_def os_remove_def emit_def Let_def os_path_exists_def)

theorem download_for_offline_delete_witness:
  "download_for_offline home_world ''/data/mbtiles/Paris.mbtiles'' (2.2, 48.8, 2.4, 48.9) [12, 13, 14, 15] True =
      (None, home_world\<lparr>fs := (fs home_world)\<lparr>entries :=
                  filter (\<lambda>e. fst e \<noteq> ''/data/mbtiles/Paris.mbtiles'') (entries (fs home_world))\<rparr>,
               effects := effects home_world @
                 [Remove ''/data/mbtiles/Paris.mbtiles'',
                  ThreadStart \<lparr>mb_filepath = ''/data/mbtiles/Paris.mbtiles'', mb_cache = True,
                               mb_coverage = [((2.2, 48.8, 2.4, 48.9), [12, 13, 14, 15])]\<rparr> False],
               clock := clock home_world @
                 [(0.5, \<lparr>mb_filepath = ''/data/mbtiles/Paris.mbtiles'', mb_cache = True,
                         mb_coverage = [((2.2, 48.8, 2.4, 48.9), [12, 13, 14, 15])]\<rparr>)]\<rparr>)
    \<and> \<not> os_path_exists (fs (snd (download_for_offline home_world ''/data/mbtiles/Paris.mbtiles''
          (2.2, 48.8, 2.4, 48.9) [12, 13, 14, 15] True))) ''/data/mbtiles/Paris.mbtiles''"
  by (rule download_for_offline_delete) (simp add: home_world_def)

text \<open>Without \<open>delete\<close> nothing is removed; with it, a path that is not a file raises.\<close>

lemma download_for_offline_fresh:
  "download_for_offline w filepath bbox zoomlevels False =
      (None, w\<lparr>effects := effects w @
                 [ThreadStart \<lparr>mb_filepath = filepath, mb_cache = True,
                               mb_coverage = [(bbox, zoomlevels)]\<rparr> False],
               clock := clock w @
                 [(0.5, \<lparr>mb_filepath = filepath, mb_cache = True,
                         mb_coverage = [(bbox, zoomlevels)]\<rparr>)]\<rparr>)"
  by (simp add: download_for_offline_def emit_def Let_def)

lemma download_for_offline_delete_missing:
  "(filepath, File) \<notin> set (entries (fs w)) \<Longrightarrow>
     download_for_offline w filepath bbox zoomlevels True = (Some OSError, w)"
  by (simp add: download_for_offline_def os_remove_def)

section \<open>Requesting a download\<close>

text \<open>
  C2, as the code has it. When the package directory does not exist and cannot be
  created, \<open>prepare_download_for_offline2\<close> does not return: the OSError of
  \<^verbatim>\<open>os.makedirs\<close> leaves the method uncaught, and the state is exactly the one before
  the call, so no popup, no status message, no thread and no scheduled probe.
\<close>

theorem prepare_download_makedirs_failure:
  assumes "\<not> os_path_exists (fs w) (mbtiles_directory w)" and "\<not> makedirs_ok (fs w)"
  shows "prepare_download_for_offline2 w filename bbox zoomlevels = (Some OSError, w)"
  using assms by (simp add: prepare_download_for_offline2_def os_makedirs_def)

theorem prepare_download_makedirs_failure_witness:
  "prepare_download_for_offline2 locked_world ''Lyon.mbtiles'' (4.7, 45.7, 4.9, 45.8) [12, 13, 14, 15] =
     (Some OSError, locked_world)"
  by (rule prepare_download_makedirs_failure)
    (simp_all add: locked_world_def home_world_def mbtiles_directory_def os_path_join_def
      os_path_exists_def)

text \<open>
  C2, as stated, fails: asked for the world map on a device whose package directory is
  missing and cannot be created, the request hands no outcome back and tells the user
  nothing. It raises OSError, and no popup is opened and no status message is set.
\<close>

theorem download_world_map_denied_counterexample:
  "fst (download_world_map locked_world) = Some OSError
   \<and> effects (snd (download_world_map locked_world)) = []
   \<and> status_message (snd (download_world_map locked_world)) = []
   \<and> clock (snd (download_world_map locked_world)) = []"
  by (simp add: download_world_map_def prepare_download_for_offline2_def locked_world_def
      home_world_def mbtiles_directory_def os_path_join_def os_path_exists_def os_makedirs_def)

text \<open>
  C4. When the destination exists (and with it the package directory it lies in),
  \<open>prepare_download_for_offline2\<close> returns normally having opened the confirmation popup
  and set the status message, and nothing else: the file system and the clock are
  untouched and no thread is started. The handler bound to the popup's "yes" is
  \<open>download_for_offline\<close> on the same path, box and zoom levels with \<open>delete\<close> set.
\<close>

theorem prepare_download_conflict:
  assumes "os_path_exists (fs w) (mbtiles_directory w)"
    and "os_path_exists (fs w) (os_path_join (mbtiles_directory w) filename)"
  shows "prepare_download_for_offline2 w filename bbox zoomlevels =
      (None, w\<lparr>effects := effects w @
                 [PopupOpen (ConfirmPopup ''File already exists''
                     (''File already exists.'' @ [CHR 0x0A] @ ''Do you want to override?'')
                     (download_for_offline_cb (os_path_join (mbtiles_directory w) filename)
                        bbox zoomlevels True)),
                  StatusBarShow],
               status_message := ''File already exists: '' @ filename,
               status_lifetime := Some 10\<rparr>)
    \<and> fs (snd (prepare_download_for_offline2 w filename bbox zoomlevels)) = fs w
    \<and> clock (snd (prepare_download_for_offline2 w filename bbox zoomlevels)) = clock w
    \<and> on_yes w' (download_for_offline_cb (os_path_join (mbtiles_directory w) filename)
                    bbox zoomlevels True) =
       download_for_offline w' (os_path_join (mbtiles_directory w) filename) bbox zoomlevels True"
  using assms
  by (simp add: prepare_download_for_offline2_def Let_def popup_open_def emit_def
      update_status_message_def)

theorem prepare_download_conflict_witness:
  "prepare_download_for_offline2 home_world ''Paris.mbtiles'' (2.2, 48.8, 2.4, 48.9) [12, 13, 14, 15] =
      (None, home_world\<lparr>effects :=
                 [PopupOpen (ConfirmPopup ''File already exists''
                     (''File already exists.'' @ [CHR 0x0A] @ ''Do you want to override?'')
                     (download_for_offline_cb ''/data/mbtiles/Paris.mbtiles''
                        (2.2, 48.8, 2.4, 48.9) [12, 13, 14, 15] True)),
                  StatusBarShow],
               status_message := ''File already exists: Paris.mbtiles'',
               status_lifetime := Some 10\<rparr>)"
proof -
  have d: "mbtiles_directory home_world = ''/data/mbtiles''"
    by (simp add: home_world_def mbtiles_directory_def os_path_join_def)
  have p: "os_path_join ''/data/mbtiles'' ''Paris.mbtiles'' = ''/data/mbtiles/Paris.mbtiles''"
    by (simp add: os_path_join_def)
  have a: "os_path_exists (fs home_world) (mbtiles_directory home_world)"
    unfolding d by (simp add: home_world_def os_path_exists_def)
  have b: "os_path_exists (fs home_world) (os_path_join (mbtiles_directory home_world) ''Paris.mbtiles'')"
    unfolding d p by (simp add: home_world_def os_path_exists_def)
  have e: "effects home_world = []" by (simp add: home_world_def)
  from prepare_download_conflict [OF a b, of "(2.2, 48.8, 2.4, 48.9)" "[12, 13, 14, 15]"]
  show ?thesis by (simp add: d p e)
qed

section \<open>Geocoding\<close>

lemma search_service_error:
  assumes "geocode txt = Inl msg"
  shows "search geocode w txt =
     (None, w\<lparr>effects := effects w @ [Geocode txt, PopupOpen (PopupMessage ''Error'' msg)]\<rparr>)"
  using assms by (simp add: search_def Let_def popup_open_def emit_def)

lemma prepare_download_service_error:
  assumes "geocode txt = Inl msg"
  shows "prepare_download_for_offline1 geocode pyfloat w txt =
     (Some (GeocoderServiceError msg), w\<lparr>effects := effects w @ [Geocode txt]\<rparr>)"
  using assms by (simp add: prepare_download_for_offline1_def Let_def popup_open_def emit_def)

text \<open>
  C3, at a geocoder that fails with "Service timed out". \<open>search\<close> asks once, catches the
  error, shows it in a popup and returns. \<open>prepare_download_for_offline1\<close> asks once and
  has no handler: the GeocoderServiceError leaves the method and no popup is opened.
\<close>

theorem geocoder_failure_search_and_download:
  "search (\<lambda>t. Inl ''Service timed out'') home_world ''Paris'' =
     (None, home_world\<lparr>effects :=
        [Geocode ''Paris'', PopupOpen (PopupMessage ''Error'' ''Service timed out'')]\<rparr>)
   \<and> prepare_download_for_offline1 (\<lambda>t. Inl ''Service timed out'') example_float home_world ''Paris'' =
     (Some (GeocoderServiceError ''Service timed out''), home_world\<lparr>effects := [Geocode ''Paris'']\<rparr>)"
  by (simp add: search_service_error prepare_download_service_error) (simp add: home_world_def)

text \<open>
  C6. \<open>prepare_download_for_offline1\<close> with no place found opens the "Can't find
  location." popup and does nothing else; with a place whose tag is not "city" it opens
  the "Only cities are allowed." popup and does nothing else (the file system, the clock
  and the view are as before, and the only effects are the one request to the geocoder and
  the popup). Whenever the call changes the clock or the file system, the geocoder has
  returned a place tagged "city".
\<close>

theorem prepare_download_city_gate:
  "(geocode txt = Inr None \<longrightarrow>
      prepare_download_for_offline1 geocode pyfloat w txt =
        (None, w\<lparr>effects := effects w @
            [Geocode txt, PopupOpen (PopupMessage ''Error'' ''Can't find location.'')]\<rparr>))
   \<and> (geocode txt = Inr (Some loc) \<and> raw_type loc \<noteq> ''city'' \<longrightarrow>
      prepare_download_for_offline1 geocode pyfloat w txt =
        (None, w\<lparr>effects := effects w @
            [Geocode txt, PopupOpen (PopupMessage ''Error'' ''Only cities are allowed.'')]\<rparr>))
   \<and> (clock (snd (prepare_download_for_offline1 geocode pyfloat w txt)) \<noteq> clock w
        \<or> fs (snd (prepare_download_for_offline1 geocode pyfloat w txt)) \<noteq> fs w \<longrightarrow>
      (\<exists>place. geocode txt = Inr (Some place) \<and> raw_type place = ''city''))"
proof (intro conjI impI)
  assume "geocode txt = Inr None"
  then show "prepare_download_for_offline1 geocode pyfloat w txt =
        (None, w\<lparr>effects := effects w @
            [Geocode txt, PopupOpen (PopupMessage ''Error'' ''Can't find location.'')]\<rparr>)"
    by (simp add: prepare_download_for_offline1_def Let_def popup_open_def emit_def)
next
  assume "geocode txt = Inr (Some loc) \<and> raw_type loc \<noteq> ''city''"
  then show "prepare_download_for_offline1 geocode pyfloat w txt =
        (None, w\<lparr>effects := effects w @
            [Geocode txt, PopupOpen (PopupMessage ''Error'' ''Only cities are allowed.'')]\<rparr>)"
    by (simp add: prepare_download_for_offline1_def Let_def popup_open_def emit_def)
next
  assume changed: "clock (snd (prepare_download_for_offline1 geocode pyfloat w txt)) \<noteq> clock w
        \<or> fs (snd (prepare_download_for_offline1 geocode pyfloat w txt)) \<noteq> fs w"
  show "\<exists>place. geocode txt = Inr (Some place) \<and> raw_type place = ''city''"
  proof (cases "geocode txt")
    case (Inl msg)
    with changed show ?thesis
      by (simp add: prepare_download_for_offline1_def Let_def emit_def)
  next
    case (Inr found)
    show ?thesis
    proof (cases found)
      case None
      with Inr changed show ?thesis
        by (simp add: prepare_download_for_offline1_def Let_def popup_open_def emit_def)
    next
      case (Some place)
      show ?thesis
      proof (cases "raw_type place = ''city''")
        case True
        with Inr Some show ?thesis by simp
      next
        case False
        with Inr Some changed show ?thesis
          by (simp add: prepare_download_for_offline1_def Let_def popup_open_def emit_def)
      qed
    qed
  qed
qed

lemma lyon_download_started:
  "clock (snd (prepare_download_for_offline1 (\<lambda>t. Inr (Some lyon)) example_float home_world ''Lyon'')) =
    [(0.5, \<lparr>mb_filepath = ''/data/mbtiles/Lyon.mbtiles'', mb_cache = True,
            mb_coverage = [((4.7, 45.7, 4.9, 45.8), [12, 13, 14, 15])]\<rparr>)]"
  by (simp add: prepare_download_for_offline1_def prepare_download_for_offline2_def
      download_for_offline_def geopy_bbox_to_bbox_def animated_center_on_def
      lyon_def home_world_def example_float_def Let_def emit_def os_path_exists_def
      mbtiles_directory_def os_path_join_def zoomlevels_12_15)

theorem prepare_download_city_gate_witness:
  "prepare_download_for_offline1 (\<lambda>t. Inr None) example_float home_world ''Atlantis'' =
     (None, home_world\<lparr>effects := effects home_world @
        [Geocode ''Atlantis'', PopupOpen (PopupMessage ''Error'' ''Can't find location.'')]\<rparr>)
   \<and> prepare_download_for_offline1 (\<lambda>t. Inr (Some (lyon\<lparr>raw_type := ''address''\<rparr>))) example_float
       home_world ''1 rue X'' =
     (None, home_world\<lparr>effects := effects home_world @
        [Geocode ''1 rue X'', PopupOpen (PopupMessage ''Error'' ''Only cities are allowed.'')]\<rparr>)
   \<and> clock (snd (prepare_download_for_offline1 (\<lambda>t. Inr (Some lyon)) example_float home_world ''Lyon''))
       \<noteq> clock home_world
   \<and> (\<exists>place. (\<lambda>t::string. Inr (Some lyon) :: string + location option) ''Lyon'' = Inr (Some place)
         \<and> raw_type place = ''city'')"
proof (intro conjI)
  show "prepare_download_for_offline1 (\<lambda>t. Inr None) example_float home_world ''Atlantis'' =
     (None, home_world\<lparr>effects := effects home_world @
        [Geocode ''Atlantis'', PopupOpen (PopupMessage ''Error'' ''Can't find location.'')]\<rparr>)"
    using prepare_download_city_gate [of "\<lambda>t. Inr None" "''Atlantis''" example_float home_world]
    by blast
next
  have b: "raw_type (lyon\<lparr>raw_type := ''address''\<rparr>) \<noteq> ''city''" by simp
  show "prepare_download_for_offline1 (\<lambda>t. Inr (Some (lyon\<lparr>raw_type := ''address''\<rparr>))) example_float
       home_world ''1 rue X'' =
     (None, home_world\<lparr>effects := effects home_world @
        [Geocode ''1 rue X'', PopupOpen (PopupMessage ''Error'' ''Only cities are allowed.'')]\<rparr>)"
    using b prepare_download_city_gate [of "\<lambda>t. Inr (Some (lyon\<lparr>raw_type := ''address''\<rparr>))"
         "''1 rue X''" example_float home_world "lyon\<lparr>raw_type := ''address''\<rparr>"]
    by blast
next
  show c: "clock (snd (prepare_download_for_offline1 (\<lambda>t. Inr (Some lyon)) example_float home_world ''Lyon''))
       \<noteq> clock home_world"
    unfolding lyon_download_started by (simp add: home_world_def)
  show "\<exists>place. (\<lambda>t::string. Inr (Some lyon) :: string + location option) ''Lyon'' = Inr (Some place)
         \<and> raw_type place = ''city''"
    using c prepare_download_city_gate [of "\<lambda>t. Inr (Some lyon)" "''Lyon''" example_float home_world]
    by blast
qed

section \<open>Loading a package\<close>

lemma mbtiles_directory_shape:
  "mbtiles_directory w \<noteq> []
     \<and> drop (length (mbtiles_directory w) - 1) (mbtiles_directory w) \<noteq> ''/''"
  by (simp add: mbtiles_directory_def os_path_join_def)

lemma os_path_join_child:
  assumes "d \<noteq> []" and "drop (length d - 1) d \<noteq> ''/''"
    and "name \<noteq> []" and "CHR ''/'' \<notin> set name"
  shows "os_path_join d name = d @ ''/'' @ name"
proof -
  from assms(3,4) have "take 1 name \<noteq> ''/''" by (cases name) auto
  with assms(1,2) show ?thesis by (simp add: os_path_join_def)
qed

lemma glob_entry:
  assumes "d \<noteq> []" and "drop (length d - 1) d \<noteq> ''/''"
  shows "map (os_path_join d) (filter fnmatch_mbtiles (child_name d p)) =
     filter (\<lambda>p. take (length d + 1) p = d @ ''/'' \<and> drop (length d + 1) p \<noteq> []
                \<and> CHR ''/'' \<notin> set (drop (length d + 1) p)
                \<and> fnmatch_mbtiles (drop (length d + 1) p)) [p]"
proof (cases "child_name d p = []")
  case True
  then show ?thesis by (auto simp: child_name_def Let_def split: if_splits)
next
  case False
  then have c: "take (length d + 1) p = d @ ''/''" "drop (length d + 1) p \<noteq> []"
    "CHR ''/'' \<notin> set (drop (length d + 1) p)"
    and n: "child_name d p = [drop (length d + 1) p]"
    by (auto simp: child_name_def Let_def split: if_splits)
  have "os_path_join d (drop (length d + 1) p) = d @ ''/'' @ drop (length d + 1) p"
    using assms c by (intro os_path_join_child) auto
  also have "\<dots> = take (length d + 1) p @ drop (length d + 1) p" using c(1) by simp
  also have "\<dots> = p" by simp
  finally show ?thesis using c n by simp
qed

lemma glob_entries:
  assumes "d \<noteq> []" and "drop (length d - 1) d \<noteq> ''/''"
  shows "map (os_path_join d) (filter fnmatch_mbtiles (concat (map (\<lambda>e. child_name d (fst e)) es))) =
     filter (\<lambda>p. take (length d + 1) p = d @ ''/'' \<and> drop (length d + 1) p \<noteq> []
                \<and> CHR ''/'' \<notin> set (drop (length d + 1) p)
                \<and> fnmatch_mbtiles (drop (length d + 1) p)) (map fst es)"
proof (induction es)
  case Nil
  then show ?case by simp
next
  case (Cons e es)
  from glob_entry [OF assms, of "fst e"] Cons.IH show ?case by simp
qed

lemma load_mbtiles_map_source:
  "map_source (snd (load_mbtiles read_metadata pyfloat pyint w mbtiles)) =
     MBTilesCompositeMapSource (mbtiles_paths w)"
  by (simp add: load_mbtiles_def Let_def animated_center_on_def emit_def
      split: option.splits sum.splits prod.splits)

text \<open>
  C10. Whatever name is passed, and whether or not the call then raises,
  \<open>load_mbtiles\<close> leaves as map source the composite over \<open>mbtiles_paths\<close>, which does
  not depend on the name: when the package directory exists these are exactly the
  existing paths directly inside it whose name ends in .mbtiles and does not start with a
  dot, in the order the file system enumerates them; otherwise there are none.
\<close>

theorem load_mbtiles_all_packages:
  "map_source (snd (load_mbtiles read_metadata pyfloat pyint w mbtiles)) =
     MBTilesCompositeMapSource (mbtiles_paths w)
   \<and> mbtiles_paths w =
     (if (mbtiles_directory w, Dir) \<in> set (entries (fs w))
      then filter (\<lambda>p. take (length (mbtiles_directory w) + 1) p = mbtiles_directory w @ ''/''
                  \<and> drop (length (mbtiles_directory w) + 1) p \<noteq> []
                  \<and> CHR ''/'' \<notin> set (drop (length (mbtiles_directory w) + 1) p)
                  \<and> fnmatch_mbtiles (drop (length (mbtiles_directory w) + 1) p))
             (map fst (entries (fs w)))
      else [])"
proof -
  have d: "mbtiles_directory w \<noteq> []"
    "drop (length (mbtiles_directory w) - 1) (mbtiles_directory w) \<noteq> ''/''"
    using mbtiles_directory_shape [of w] by simp_all
  show ?thesis
    using glob_entries [OF d, of "entries (fs w)"]
    by (simp add: load_mbtiles_map_source mbtiles_paths_def glob_mbtiles_def os_listdir_def)
qed

theorem load_mbtiles_all_packages_witness:
  "map_source (snd (load_mbtiles (\<lambda>p. None) example_float (\<lambda>s. None) home_world ''World.mbtiles'')) =
     MBTilesCompositeMapSource [''/data/mbtiles/Paris.mbtiles'', ''/data/mbtiles/World.mbtiles'']"
  using load_mbtiles_all_packages [of "\<lambda>p. None" example_float "\<lambda>s. None" home_world "''World.mbtiles''"]
  by (simp only: home_world_packages)

lemma load_mbtiles_without_center:
  assumes "read_metadata (os_path_join (mbtiles_directory w) mbtiles) = Some metadata"
    and "metadata ''center'' = None"
  shows "load_mbtiles read_metadata pyfloat pyint w mbtiles =
     (Some UnboundLocalError, w\<lparr>map_source := MBTilesCompositeMapSource (mbtiles_paths w)\<rparr>)"
  using assms by (simp add: load_mbtiles_def Let_def)

lemma load_mbtiles_with_center:
  assumes "read_metadata (os_path_join (mbtiles_directory w) mbtiles) = Some metadata"
    and "metadata ''center'' = Some c" and "parse_center pyfloat c = Inr (lo, la, z)"
    and "(case metadata ''minzoom'' of None \<Rightarrow> Some OFFLINE_MIN_ZOOM | Some s \<Rightarrow> pyint s) = Some min_zoom"
  shows "load_mbtiles read_metadata pyfloat pyint w mbtiles =
     (None, w\<lparr>map_source := MBTilesCompositeMapSource (mbtiles_paths w),
              effects := effects w @
                [AnimationStart
                  (Sequence
                    (Parallel (Animation (animated_zoom_property 5) 1)
                              (Animation (animated_latlon_property la lo) 1))
                    (Animation (animated_zoom_property (zoom w)) 1))],
              zoom := min_zoom\<rparr>)"
  using assms by (simp add: load_mbtiles_def Let_def animated_center_on_def emit_def)

text \<open>
  C1, at a package whose metadata declares a minimum zoom of 3 and no center: the map
  source is replaced, then reading the unassigned \<open>latitude\<close> raises UnboundLocalError
  before the zoom is stored. The view keeps its position, and its zoom stays 8 instead of
  becoming 3.
\<close>

theorem load_mbtiles_without_center_raises:
  "load_mbtiles (\<lambda>p. Some [''minzoom'' \<mapsto> ''3'']) example_float (\<lambda>s. if s = ''3'' then Some 3 else None)
      home_world ''Paris.mbtiles'' =
     (Some UnboundLocalError,
      home_world\<lparr>map_source := MBTilesCompositeMapSource
          [''/data/mbtiles/Paris.mbtiles'', ''/data/mbtiles/World.mbtiles'']\<rparr>)
   \<and> zoom (snd (load_mbtiles (\<lambda>p. Some [''minzoom'' \<mapsto> ''3'']) example_float
         (\<lambda>s. if s = ''3'' then Some 3 else None) home_world ''Paris.mbtiles'')) = 8"
proof -
  have "load_mbtiles (\<lambda>p. Some [''minzoom'' \<mapsto> ''3'']) example_float (\<lambda>s. if s = ''3'' then Some 3 else None)
      home_world ''Paris.mbtiles'' =
     (Some UnboundLocalError, home_world\<lparr>map_source := MBTilesCompositeMapSource (mbtiles_paths home_world)\<rparr>)"
    by (rule load_mbtiles_without_center [where metadata = "[''minzoom'' \<mapsto> ''3'']"]) simp_all
  then show ?thesis by (simp add: home_world_packages) (simp add: home_world_def)
qed

end
